theory Spec2Isabelle
  imports Complex_Main "HOL-Library.Word"
begin

section \<open>thinkfan.cpp: data\<close>

text \<open>
  The C++ type \<open>float\<close> (\<open>bias\<close>, \<open>bias_level\<close>, \<open>depulse\<close>) is
  written as \<open>real\<close> and its operations as the exact ones; rounding, infinities and
  NaN are not modelled. What is stated about \<open>float\<close> values below is stated at
  concrete inputs only, dyadic fractions of small magnitude on which every intermediate
  result is a \<open>float\<close> value and the C++ computation is exact.
  \<open>std::chrono::seconds\<close> is a count of seconds.
\<close>

type_synonym seconds = nat

text \<open>
  \<open>struct TemperatureState\<close> is declared in thinkfan.h; this file uses its fields
  \<open>temps\<close> (the readings), \<open>temp_it\<close> (the write cursor, here the index into
  \<open>temps\<close>; \<open>temps.begin()\<close> is 0 and \<open>temps.end()\<close> is \<open>length temps\<close>),
  \<open>tmax\<close> and \<open>bias\<close>. The field \<open>b_tmax\<close> is only read for the debug line
  \<open>MSG_T_STAT\<close> and is left out.
\<close>

record TemperatureState =
  temps :: "int list"
  temp_it :: nat
  tmax :: int
  bias :: real

text \<open>
  Modelled from the spec: the constructor \<open>TemperatureState(num_temps)\<close> of thinkfan.h
  is not part of the sources. Section 3 of the specification fixes the length of \<open>temps\<close>
  to \<open>num_temps()\<close>, the cursor at the start of the sequence and the sentinel -128 for
  \<open>tmax\<close>; the slots and the bias start at 0.
\<close>

definition new_TemperatureState :: "nat \<Rightarrow> TemperatureState" where
  "new_TemperatureState n = \<lparr>temps = replicate n 0, temp_it = 0, tmax = - 128, bias = 0\<rparr>"

datatype LogLevel = TF_ERR | TF_WRN | TF_INF | TF_DBG

text \<open>The message macros of message.h, kept by name; \<open>Text\<close> is a literal string.\<close>

datatype msg =
    MSG_SENSOR_LOST
  | MSG_RELOAD_CONF
  | MSG_CONF_RELOAD_ERR
  | MSG_TERM
  | MSG_OPT_S
  | MSG_OPT_S_INVAL string
  | MSG_OPT_S_15 int
  | MSG_OPT_S_1 int
  | MSG_OPT_B
  | MSG_OPT_B_INVAL string
  | MSG_OPT_B_NOARG
  | MSG_OPT_P string
  | Text string

text \<open>
  Exceptions as values. \<open>SystemError\<close> and \<open>InvocationError\<close> are the classes of
  error.h that this file throws. \<open>Std_invalid_argument\<close> and \<open>Std_out_of_range\<close>
  are thrown by \<open>std::stof\<close> and \<open>std::stoul\<close>. \<open>Deref_past_the_end\<close> stands
  for the undefined behaviour of dereferencing \<open>levels().end()\<close>.
\<close>

datatype exn =
    SystemError msg
  | InvocationError msg
  | Std_invalid_argument
  | Std_out_of_range
  | Deref_past_the_end

text \<open>
  Modelled from the spec: \<open>fail(level) << error << flush\<close> of message.h is not part
  of the sources. By section 7 of the specification an error-level failure is fatal: it
  raises the error streamed into it. Section 6 calls a warning-level failure a warning;
  whether the process goes on after it is not fixed there, so it is the parameter
  \<open>warn_fatal\<close> (written \<open>wrn\<close> below).
\<close>

definition fail_TF_ERR :: "exn \<Rightarrow> exn option" where
  "fail_TF_ERR e = Some e"

definition fail_TF_WRN :: "bool \<Rightarrow> exn \<Rightarrow> exn option" where
  "fail_TF_WRN warn_fatal e = (if warn_fatal then Some e else None)"


section \<open>The global options and \<open>set_options\<close>\<close>

record options =
  chk_sanity :: bool
  resume_is_safe :: bool
  quiet :: bool
  sleeptime :: seconds
  bias_level :: real
  depulse :: real
  config_file :: string

text \<open>
  The initial values of the globals (lines 45 to 53). \<open>CONFIG_DEFAULT\<close> is a macro of
  the build and is a parameter here.
\<close>

definition initial_options :: "string \<Rightarrow> options" where
  "initial_options CONFIG_DEFAULT =
     \<lparr>chk_sanity = True, resume_is_safe = False, quiet = False, sleeptime = 5,
      bias_level = 5, depulse = 0, config_file = CONFIG_DEFAULT\<rparr>"

text \<open>
  What \<open>std::stof\<close> or \<open>std::stoul\<close> did with the argument: one of the two
  exceptions, or the value together with the number of characters processed
  (\<open>invalid\<close> in the source). A parsed \<open>float\<close> is a finite number here; the
  arguments \<open>nan\<close> and \<open>inf\<close> that \<open>std::stof\<close> also accepts are not modelled.
\<close>

datatype 'a parsed = Invalid_argument | Out_of_range | Parsed 'a nat

text \<open>
  One result of \<open>getopt\<close> with its \<open>optarg\<close> (\<open>None\<close> is a null pointer) and,
  for the numeric options, what the library parser returned for it. The build is the
  one without \<open>USE_ATASMART\<close>.
\<close>

datatype cmd_opt =
    Opt_h
  | Opt_c string
  | Opt_q
  | Opt_D
  | Opt_z
  | Opt_s "(string \<times> nat parsed) option"
  | Opt_b "(string \<times> real parsed) option"
  | Opt_p "(string \<times> real parsed) option"
  | Opt_unknown

text \<open>
  The body of the \<open>switch\<close>: \<open>Inl\<close> is an exception leaving \<open>set_options\<close>,
  \<open>Inr (Some rc, o)\<close> a \<open>return rc\<close>, \<open>Inr (None, o)\<close> a \<open>break\<close>. In case
  \<open>'s'\<close> the \<open>unsigned long\<close> is stored in an \<open>int\<close> and later cast to
  \<open>unsigned int\<close>, both 32 bits wide.
\<close>

fun set_option :: "bool \<Rightarrow> cmd_opt \<Rightarrow> options \<Rightarrow> exn + (int option \<times> options)" where
  "set_option wrn Opt_h opts = Inr (Some 1, opts)"
| "set_option wrn (Opt_c arg) opts = Inr (None, opts\<lparr>config_file := arg\<rparr>)"
| "set_option wrn Opt_q opts = Inr (None, opts\<lparr>quiet := True\<rparr>)"
| "set_option wrn Opt_D opts = Inr (None, opts\<lparr>chk_sanity := False\<rparr>)"
| "set_option wrn Opt_z opts = Inr (None, opts\<lparr>resume_is_safe := True\<rparr>)"
| "set_option wrn (Opt_s None) opts =
     (case fail_TF_ERR (InvocationError MSG_OPT_S) of Some e \<Rightarrow> Inl e | None \<Rightarrow> Inr (None, opts))"
| "set_option wrn (Opt_s (Some (arg, Invalid_argument))) opts =
     (case fail_TF_ERR (InvocationError (MSG_OPT_S_INVAL arg)) of
        Some e \<Rightarrow> Inl e | None \<Rightarrow> Inr (None, opts))"
| "set_option wrn (Opt_s (Some (arg, Out_of_range))) opts =
     (case fail_TF_ERR (InvocationError (MSG_OPT_S_INVAL arg)) of
        Some e \<Rightarrow> Inl e | None \<Rightarrow> Inr (None, opts))"
| "set_option wrn (Opt_s (Some (arg, Parsed u invalid))) opts =
     (let s = sint (word_of_nat u :: 32 word) in
      case (if invalid < length arg then fail_TF_ERR (InvocationError (MSG_OPT_S_INVAL arg))
            else None) of
        Some e \<Rightarrow> Inl e
      | None \<Rightarrow>
         (case (if s > 15 then fail_TF_WRN wrn (InvocationError (MSG_OPT_S_15 s))
                else if s < 0 then fail_TF_ERR (InvocationError (Text ''Negative sleep time? Seriously?''))
                else if s < 1 then fail_TF_WRN wrn (InvocationError (MSG_OPT_S_1 s))
                else None) of
            Some e \<Rightarrow> Inl e
          | None \<Rightarrow> Inr (None, opts\<lparr>sleeptime := unat (word_of_int s :: 32 word)\<rparr>)))"
| "set_option wrn (Opt_b None) opts =
     (case fail_TF_ERR (InvocationError MSG_OPT_B_NOARG) of
        Some e \<Rightarrow> Inl e | None \<Rightarrow> Inr (None, opts))"
| "set_option wrn (Opt_b (Some (arg, Invalid_argument))) opts =
     (case fail_TF_ERR (InvocationError (MSG_OPT_B_INVAL arg)) of
        Some e \<Rightarrow> Inl e | None \<Rightarrow> Inr (None, opts))"
| "set_option wrn (Opt_b (Some (arg, Out_of_range))) opts =
     (case fail_TF_ERR (InvocationError (MSG_OPT_B_INVAL arg)) of
        Some e \<Rightarrow> Inl e | None \<Rightarrow> Inr (None, opts))"
| "set_option wrn (Opt_b (Some (arg, Parsed b invalid))) opts =
     (case (if invalid < length arg then fail_TF_WRN wrn (InvocationError (MSG_OPT_B_INVAL arg))
            else None) of
        Some e \<Rightarrow> Inl e
      | None \<Rightarrow>
         (case (if b < - 10 \<or> b > 30 then fail_TF_WRN wrn (InvocationError MSG_OPT_B)
                else None) of
            Some e \<Rightarrow> Inl e
          | None \<Rightarrow> Inr (None, opts\<lparr>bias_level := b / 10\<rparr>)))"
| "set_option wrn (Opt_p None) opts = Inr (None, opts\<lparr>depulse := 1 / 2\<rparr>)"
| "set_option wrn (Opt_p (Some (arg, Invalid_argument))) opts = Inl Std_invalid_argument"
| "set_option wrn (Opt_p (Some (arg, Out_of_range))) opts = Inl Std_out_of_range"
| "set_option wrn (Opt_p (Some (arg, Parsed d invalid))) opts =
     (case (if invalid \<noteq> 0 \<or> d > 10 \<or> d < 0
            then (if d < 0 then fail_TF_ERR (InvocationError (MSG_OPT_P arg))
                  else fail_TF_WRN wrn (InvocationError (MSG_OPT_P arg)))
            else None) of
        Some e \<Rightarrow> Inl e
      | None \<Rightarrow> Inr (None, opts\<lparr>depulse := d\<rparr>))"
| "set_option wrn Opt_unknown opts = Inr (Some 3, opts)"

text \<open>
  The \<open>while\<close> loop over the results of \<open>getopt\<close>. What is written to the logger
  and to \<open>std::cerr\<close> is not kept.
\<close>

fun set_options :: "bool \<Rightarrow> cmd_opt list \<Rightarrow> options \<Rightarrow> exn + (int \<times> options)" where
  "set_options wrn [] opts = Inr (0, opts)"
| "set_options wrn (x # xs) opts =
     (case set_option wrn x opts of
        Inl e \<Rightarrow> Inl e
      | Inr (Some rc, opts') \<Rightarrow> Inr (rc, opts')
      | Inr (None, opts') \<Rightarrow> set_options wrn xs opts')"


section \<open>\<open>report_tstat\<close>\<close>

text \<open>\<open>std::to_string(int)\<close>: the decimal digits, with a minus sign below zero.\<close>

definition digit :: "nat \<Rightarrow> char" where
  "digit d = ''0123456789'' ! d"

fun digits :: "nat \<Rightarrow> string" where
  "digits n = (if n < 10 then [digit n] else digits (n div 10) @ [digit (n mod 10)])"

definition to_string :: "int \<Rightarrow> string" where
  "to_string i = (if i < 0 then CHR ''-'' # digits (nat (- i)) else digits (nat i))"

text \<open>
  Lines 67 to 73, on the buffer \<open>temp_state\<close> points to. \<open>rv.substr(0, rv.length()-2)\<close>
  keeps the first \<open>length rv - 2\<close> characters; \<open>rv\<close> is never shorter than its
  22-character prefix.
\<close>

definition report_tstat :: "TemperatureState \<Rightarrow> string" where
  "report_tstat temp_state =
     (let rv = foldl (\<lambda>rv temp. rv @ to_string temp @ '', '') ''Current temperatures: ''
                 (temps temp_state)
      in take (length rv - 2) rv)"

text \<open>
  The specification's wording of the report, to compare \<open>report_tstat\<close> with: the
  readings joined with the separator.
\<close>

fun join_with :: "string \<Rightarrow> string list \<Rightarrow> string" where
  "join_with sep [] = []"
| "join_with sep [x] = x"
| "join_with sep (x # y # ys) = x @ sep @ join_with sep (y # ys)"

definition spec_report :: "int list \<Rightarrow> string" where
  "spec_report ts = ''Current temperatures: '' @ join_with '', '' (map to_string ts)"


section \<open>Bias decay\<close>

text \<open>
  Lines 163 to 173: the update of \<open>temp_state->bias\<close> after the sleep; \<open>bl\<close> is
  the global \<open>bias_level\<close> and \<open>b\<close> the bias before the step.
\<close>

definition bias_decay :: "real \<Rightarrow> real \<Rightarrow> real" where
  "bias_decay bl b =
     (if b \<noteq> 0 then
        (if b > 0 then (if b < 1 / 2 then 0 else b - b / 2 * bl)
         else (if b > - (1 / 2) then 0 else b + b / 2 * bl))
      else b)"


section \<open>The control loop \<open>run\<close>\<close>

text \<open>
  \<open>Config\<close>, \<open>Level\<close>, \<open>SensorDriver\<close> and \<open>FanDriver\<close> are declared in
  config.h. A level is a value of the type \<open>'l\<close>; \<open>level_le l t\<close> is the virtual
  operator \<open>*l <= t\<close> and \<open>level_gt l t\<close> the virtual operator \<open>*l > t\<close> of the
  class \<open>Level\<close>, both parameters of the model. A sensor driver's \<open>read_temps()\<close>
  writes into the buffer \<open>temp_state\<close> points to and moves its cursor; what it reads
  depends on the hardware at that moment, a value of the type \<open>'hw\<close>.
\<close>

record ('l, 'hw) Config =
  sensors :: "('hw \<Rightarrow> TemperatureState \<Rightarrow> TemperatureState) list"
  levels :: "'l list"
  level_le :: "'l \<Rightarrow> TemperatureState \<Rightarrow> bool"
  level_gt :: "'l \<Rightarrow> TemperatureState \<Rightarrow> bool"
  num_temps :: nat

text \<open>The calls made on \<open>config.fan()\<close>, in the order they are made.\<close>

datatype 'l fan_cmd = Fan_init | Set_speed 'l | Ping_watchdog_and_depulse 'l

text \<open>
  The variables \<open>run\<close> works on: the two buffers behind the global pointers, the global
  \<open>tmp_sleeptime\<close> and the iterator \<open>cur_lvl\<close> as an index into \<open>levels\<close>
  (\<open>begin()\<close> is 0, \<open>end()\<close> is \<open>length levels\<close>).
\<close>

record loop_state =
  temp_state :: TemperatureState
  last_temp_state :: TemperatureState
  tmp_sleeptime :: seconds
  cur_lvl :: nat

text \<open>\<open>for (const SensorDriver *sensor : config.sensors()) sensor->read_temps();\<close>\<close>

definition read_temps :: "('l, 'hw) Config \<Rightarrow> 'hw \<Rightarrow> TemperatureState \<Rightarrow> TemperatureState" where
  "read_temps cfg hw ts = fold (\<lambda>sensor t. sensor hw t) (sensors cfg) ts"

text \<open>
  \<open>*cur_lvl\<close>: an element of the vector when the iterator is not \<open>end()\<close>; the read
  at \<open>end()\<close> is the error \<open>Deref_past_the_end\<close>.
\<close>

definition deref :: "'a list \<Rightarrow> nat \<Rightarrow> exn + 'a" where
  "deref xs i = (if i < length xs then Inr (xs ! i) else Inl Deref_past_the_end)"

text \<open>
  \<open>while (cur_lvl != config.levels().end() && **cur_lvl <= *temp_state) cur_lvl++;\<close>
  with \<open>p l\<close> for \<open>*l <= *temp_state\<close>. The iterator never leaves the range from
  \<open>begin()\<close> to \<open>end()\<close>, where \<open>cur_lvl != end()\<close> is \<open>k < length lvls\<close>.
\<close>

function scan_up :: "('l \<Rightarrow> bool) \<Rightarrow> 'l list \<Rightarrow> nat \<Rightarrow> nat" where
  "scan_up p lvls k = (if k < length lvls \<and> p (lvls ! k) then scan_up p lvls (Suc k) else k)"
  by pat_completeness auto
termination
  by (relation "measure (\<lambda>(p, lvls, k). length lvls - k)") auto

text \<open>
  \<open>while (cur_lvl != config.levels().begin() && **cur_lvl > *temp_state) cur_lvl--;\<close>
  with \<open>q l\<close> for \<open>*l > *temp_state\<close>.
\<close>

function scan_down :: "('l \<Rightarrow> bool) \<Rightarrow> 'l list \<Rightarrow> nat \<Rightarrow> nat" where
  "scan_down q lvls k = (if k \<noteq> 0 \<and> q (lvls ! k) then scan_down q lvls (k - 1) else k)"
  by pat_completeness auto
termination
  by (relation "measure (\<lambda>(q, lvls, k). k)") auto

text \<open>
  Lines 99 to 113: the two fresh buffers and the first reading. The sensors are modelled
  as writing the active buffer only, so that the aliasing of the two cursors (line 109)
  and its undoing (line 113) leave the other buffer as it was created.
\<close>

definition initial_temps :: "('l, 'hw) Config \<Rightarrow> 'hw \<Rightarrow> TemperatureState" where
  "initial_temps cfg hw = read_temps cfg hw (new_TemperatureState (num_temps cfg))"

text \<open>
  Lines 99 to 125, up to the first \<open>set_speed\<close>. The result is the list of fan
  commands issued and either the exception that ended \<open>run\<close> or the state the loop
  starts in. The debug line before \<open>set_speed\<close> dereferences the same iterator
  (\<open>(*cur_lvl)->str()\<close>), so an iterator at \<open>end()\<close> fails before any speed is set.
\<close>

definition run_init ::
  "('l, 'hw) Config \<Rightarrow> options \<Rightarrow> 'hw \<Rightarrow> 'l fan_cmd list \<times> (exn + loop_state)" where
  "run_init cfg opts hw =
     (let ts = initial_temps cfg hw;
          lts = (new_TemperatureState (num_temps cfg))\<lparr>temp_it := 0\<rparr>;
          k = scan_up (\<lambda>l. level_le cfg l ts) (levels cfg) 0
      in case deref (levels cfg) k of
           Inl e \<Rightarrow> ([Fan_init], Inl e)
         | Inr l \<Rightarrow>
             ([Fan_init, Set_speed l],
              Inr \<lparr>temp_state = ts, last_temp_state = lts,
                   tmp_sleeptime = sleeptime opts, cur_lvl = k\<rparr>))"

text \<open>
  Lines 128 to 137: the buffers are swapped, both cursors go back to the start, the
  bias is carried over, \<open>tmax\<close> is reset and the sensors write the new readings.
  \<open>sense\<close> is the active buffer after that.
\<close>

definition sense :: "('l, 'hw) Config \<Rightarrow> 'hw \<Rightarrow> loop_state \<Rightarrow> TemperatureState" where
  "sense cfg hw s =
     read_temps cfg hw
       ((last_temp_state s)\<lparr>temp_it := 0, bias := bias (temp_state s), tmax := - 128\<rparr>)"

text \<open>
  Lines 142 to 159 on the state whose \<open>temp_state\<close> holds the new readings: the
  comparison of the current level and the fan command that follows from it.
\<close>

definition select_level ::
  "('l, 'hw) Config \<Rightarrow> options \<Rightarrow> loop_state \<Rightarrow> 'l fan_cmd list \<times> (exn + loop_state)" where
  "select_level cfg opts s =
     (let ts = temp_state s in
      case deref (levels cfg) (cur_lvl s) of
        Inl e \<Rightarrow> ([], Inl e)
      | Inr l \<Rightarrow>
          if level_le cfg l ts then
            (let k = scan_up (\<lambda>l. level_le cfg l ts) (levels cfg) (cur_lvl s) in
             case deref (levels cfg) k of
               Inl e \<Rightarrow> ([], Inl e)
             | Inr l' \<Rightarrow> ([Set_speed l'], Inr (s\<lparr>cur_lvl := k\<rparr>)))
          else if level_gt cfg l ts then
            (let k = scan_down (\<lambda>l. level_gt cfg l ts) (levels cfg) (cur_lvl s) in
             case deref (levels cfg) k of
               Inl e \<Rightarrow> ([], Inl e)
             | Inr l' \<Rightarrow>
                 ([Set_speed l'], Inr (s\<lparr>cur_lvl := k, tmp_sleeptime := sleeptime opts\<rparr>)))
          else ([Ping_watchdog_and_depulse l], Inr s))"

text \<open>Lines 163 to 173 on the loop state; the sleep before them changes nothing here.\<close>

definition decay :: "options \<Rightarrow> loop_state \<Rightarrow> loop_state" where
  "decay opts s =
     s\<lparr>temp_state := (temp_state s)\<lparr>bias := bias_decay (bias_level opts) (bias (temp_state s))\<rparr>\<rparr>"

text \<open>
  One iteration of \<open>while (likely(!interrupted))\<close>, lines 128 to 173: the fan commands
  issued in it, and the exception that ends \<open>run\<close> or the state after it.
\<close>

definition cycle ::
  "('l, 'hw) Config \<Rightarrow> options \<Rightarrow> 'hw \<Rightarrow> loop_state \<Rightarrow> 'l fan_cmd list \<times> (exn + loop_state)" where
  "cycle cfg opts hw s =
     (let ts = sense cfg hw s;
          s1 = s\<lparr>temp_state := ts, last_temp_state := (temp_state s)\<lparr>temp_it := 0\<rparr>\<rparr>
      in case (if temp_it ts \<noteq> length (temps ts) then fail_TF_ERR (SystemError MSG_SENSOR_LOST)
               else None) of
           Some e \<Rightarrow> ([], Inl e)
         | None \<Rightarrow>
            (case select_level cfg opts s1 of
               (cmds, Inl e) \<Rightarrow> (cmds, Inl e)
             | (cmds, Inr s2) \<Rightarrow> (cmds, Inr (decay opts s2))))"

text \<open>
  The loop runs one cycle for each element of \<open>hws\<close>, the hardware as it is in the
  cycles that start before \<open>interrupted\<close> is seen set, and stops at the first
  exception.
\<close>

fun run_loop ::
  "('l, 'hw) Config \<Rightarrow> options \<Rightarrow> 'hw list \<Rightarrow> loop_state \<Rightarrow> 'l fan_cmd list \<times> (exn + loop_state)" where
  "run_loop cfg opts [] s = ([], Inr s)"
| "run_loop cfg opts (hw # hws) s =
     (case cycle cfg opts hw s of
        (cmds, Inl e) \<Rightarrow> (cmds, Inl e)
      | (cmds, Inr s') \<Rightarrow>
          (case run_loop cfg opts hws s' of (cmds', r) \<Rightarrow> (cmds @ cmds', r)))"

definition run ::
  "('l, 'hw) Config \<Rightarrow> options \<Rightarrow> 'hw \<Rightarrow> 'hw list \<Rightarrow> 'l fan_cmd list \<times> (exn + loop_state)" where
  "run cfg opts hw hws =
     (case run_init cfg opts hw of
        (cmds, Inl e) \<Rightarrow> (cmds, Inl e)
      | (cmds, Inr s) \<Rightarrow>
          (case run_loop cfg opts hws s of (cmds', r) \<Rightarrow> (cmds @ cmds', r)))"



section \<open>Reloading the configuration in \<open>main\<close>\<close>

text \<open>The values the signal handler stores in \<open>interrupted\<close> (Linux numbers).\<close>

definition SIGHUP :: int where "SIGHUP = 1"
definition SIGINT :: int where "SIGINT = 2"
definition SIGTERM :: int where "SIGTERM = 15"

text \<open>
  How \<open>Config::read_config\<close> can fail, by the handler that catches the exception:
  \<open>ExpectedError\<close> (line 321), any other \<open>std::exception\<close> with its \<open>what()\<close>
  (line 323), or an exception neither handler catches.
\<close>

datatype read_failure = ExpectedError string | StdException string | OtherException

text \<open>
  The variables of \<open>main\<close>: the active configuration, the global \<open>interrupted\<close>,
  what was written to the logger, and the configurations \<open>run\<close> was called with so
  far. \<open>log(l, l) << m << flush\<close> with a message appends to the log.
\<close>

record 'cfg main_state =
  config :: 'cfg
  interrupted :: int
  logged :: "(LogLevel \<times> msg) list"
  runs :: "'cfg list"

definition log :: "LogLevel \<Rightarrow> msg \<Rightarrow> 'cfg main_state \<Rightarrow> 'cfg main_state" where
  "log lvl m st = st\<lparr>logged := logged st @ [(lvl, m)]\<rparr>"

text \<open>
  Lines 316 to 328, after \<open>run\<close> has returned; \<open>rc\<close> is what
  \<open>Config::read_config(config_file)\<close> does when it is called.
\<close>

definition reload :: "(read_failure + 'cfg) \<Rightarrow> 'cfg main_state \<Rightarrow> read_failure + 'cfg main_state" where
  "reload rc st =
     (if interrupted st = SIGHUP then
        (let st1 = log TF_INF MSG_RELOAD_CONF st in
         case rc of
           Inr config_new \<Rightarrow> Inr (st1\<lparr>config := config_new, interrupted := 0\<rparr>)
         | Inl (ExpectedError e) \<Rightarrow>
             Inr ((log TF_ERR MSG_CONF_RELOAD_ERR st1)\<lparr>interrupted := 0\<rparr>)
         | Inl (StdException what) \<Rightarrow>
             Inr ((log TF_ERR MSG_CONF_RELOAD_ERR
                    (log TF_ERR (Text (''read_config: '' @ what)) st1))\<lparr>interrupted := 0\<rparr>)
         | Inl OtherException \<Rightarrow> Inl OtherException)
      else Inr st)"

text \<open>
  The \<open>do ... while (!interrupted)\<close> of \<open>main\<close>, lines 314 to 331. Each element of
  the list is one call of \<open>run\<close> that returns: the signal number \<open>interrupted\<close> holds
  when it returns, and what \<open>read_config\<close> does if it is called then. When the list is
  used up \<open>run\<close> is called and no signal ends it. Signals arrive while \<open>run\<close> is
  active only, and \<open>run\<close> itself does not throw here. An exception of
  \<open>read_config\<close> that neither handler catches leaves the loop after line 317 has
  logged \<open>MSG_RELOAD_CONF\<close>.
\<close>

datatype main_exit = Running | Terminated int | Uncaught read_failure

fun main_loop ::
  "'cfg main_state \<Rightarrow> (int \<times> (read_failure + 'cfg)) list \<Rightarrow> 'cfg main_state \<times> main_exit" where
  "main_loop st [] = (st\<lparr>runs := runs st @ [config st]\<rparr>, Running)"
| "main_loop st ((signum, rc) # rest) =
     (let st1 = st\<lparr>runs := runs st @ [config st], interrupted := signum\<rparr> in
      case reload rc st1 of
        Inl e \<Rightarrow> (log TF_INF MSG_RELOAD_CONF st1, Uncaught e)
      | Inr st2 \<Rightarrow>
          if interrupted st2 = 0 then main_loop st2 rest
          else (log TF_INF MSG_TERM st2, Terminated 0))"


section \<open>A sample configuration\<close>

text \<open>
  Modelled from the spec: \<open>record(value)\<close> of section 4.1, the write of one reading
  at the cursor. A sample sensor driver writes the readings the hardware gives it.
\<close>

definition record_temp :: "int \<Rightarrow> TemperatureState \<Rightarrow> TemperatureState" where
  "record_temp v ts =
     ts\<lparr>temps := (temps ts)[temp_it ts := v], temp_it := Suc (temp_it ts), tmax := max (tmax ts) v\<rparr>"

definition list_sensor :: "int list \<Rightarrow> TemperatureState \<Rightarrow> TemperatureState" where
  "list_sensor vs ts = fold record_temp vs ts"

text \<open>
  A sample level is a pair of a lower and an upper limit: its test \<open><=\<close> holds when
  the maximum has reached the upper limit, its test \<open>>\<close> when the maximum is below the
  lower limit. The sample configuration has one sensor with one slot.
\<close>

definition sample_config :: "(int \<times> int) list \<Rightarrow> (int \<times> int, int list) Config" where
  "sample_config lvls =
     \<lparr>sensors = [list_sensor], levels = lvls,
      level_le = (\<lambda>(lo, hi) ts. hi \<le> tmax ts),
      level_gt = (\<lambda>(lo, hi) ts. tmax ts < lo),
      num_temps = 1\<rparr>"

text \<open>
  The levels of the specification's scenario are engagement points: the test \<open><=\<close>
  of a level holds when the maximum has reached its engagement point.
\<close>

definition scenario_config :: "int list \<Rightarrow> (int, int list) Config" where
  "scenario_config lvls =
     \<lparr>sensors = [list_sensor], levels = lvls,
      level_le = (\<lambda>engage ts. engage \<le> tmax ts),
      level_gt = (\<lambda>engage ts. tmax ts < engage),
      num_temps = 1\<rparr>"

definition sample_state :: "int \<Rightarrow> seconds \<Rightarrow> nat \<Rightarrow> loop_state" where
  "sample_state t slp k =
     \<lparr>temp_state = \<lparr>temps = [t], temp_it = 1, tmax = t, bias = 0\<rparr>,
      last_temp_state = \<lparr>temps = [t], temp_it = 0, tmax = t, bias = 0\<rparr>,
      tmp_sleeptime = slp, cur_lvl = k\<rparr>"


section \<open>The status report\<close>

lemma foldl_append_each: "foldl (\<lambda>rv t. rv @ f t) acc xs = acc @ concat (map f xs)"
  by (induction xs arbitrary: acc) simp_all

lemma concat_with_separator:
  "xs \<noteq> [] \<Longrightarrow> concat (map (\<lambda>t. f t @ sep) xs) = join_with sep (map f xs) @ sep"
  by (induction xs rule: induct_list012) simp_all

text \<open>
  Claim C8, as stated, at the empty buffer: the report of no readings is
  \<open>Current temperatures\<close>, because the two characters cut from the end are the colon and
  the blank of the prefix; the text the claim gives for it keeps them.
\<close>

theorem report_tstat_empty_counterexample:
  "report_tstat \<lparr>temps = [], temp_it = 0, tmax = - 128, bias = 0\<rparr> = ''Current temperatures'' \<and>
   report_tstat \<lparr>temps = [], temp_it = 0, tmax = - 128, bias = 0\<rparr> \<noteq> spec_report []"
  by (simp add: report_tstat_def spec_report_def)

text \<open>
  Claim C8, amended: for every buffer with at least one reading the report is
  \<open>Current temperatures: \<close> followed by the readings in decimal, joined with a comma
  and a blank, with nothing after the last reading.
\<close>

theorem report_tstat_nonempty:
  "temps ts \<noteq> [] \<Longrightarrow> report_tstat ts = spec_report (temps ts)"
  by (simp add: report_tstat_def spec_report_def foldl_append_each concat_with_separator Let_def)

theorem report_tstat_nonempty_witness:
  "temps \<lparr>temps = [40, - 5, 0], temp_it = 3, tmax = 40, bias = 0\<rparr> \<noteq> [] \<and>
   report_tstat \<lparr>temps = [40, - 5, 0], temp_it = 3, tmax = 40, bias = 0\<rparr>
     = ''Current temperatures: 40, -5, 0''"
  using report_tstat_nonempty [of "\<lparr>temps = [40, - 5, 0], temp_it = 3, tmax = 40, bias = 0\<rparr>"]
  by (simp add: spec_report_def to_string_def digit_def)


section \<open>The decay of the bias\<close>

text \<open>
  Claim C1 at \<open>bias_level = 3\<close> (the option \<open>-b 30\<close>, which the range check of
  \<open>set_options\<close> accepts) and at the initial \<open>bias_level = 5\<close>: the step does not
  bring the bias back to 0. With \<open>bias_level = 3\<close> the bias 1 becomes -1/2, of the
  other sign, then -5/4 and -25/8, growing in absolute value; with \<open>bias_level = 5\<close>
  the bias 4 becomes -6 and then -21. Every value here is a \<open>float\<close> value, so the
  C++ computation gives the same numbers.
\<close>

theorem bias_decay_moves_away_from_zero:
  "bias_decay 3 1 = - (1 / 2) \<and> bias_decay 3 (- (1 / 2)) = - (5 / 4)
   \<and> bias_decay 3 (- (5 / 4)) = - (25 / 8)
   \<and> bias_decay 5 4 = - 6 \<and> bias_decay 5 (- 6) = - 21"
  by (simp add: bias_decay_def)


section \<open>The two scans over the levels\<close>

declare scan_up.simps [simp del] scan_down.simps [simp del]

lemma scan_up_bounds: "k \<le> scan_up p lvls k \<and> (k \<le> length lvls \<longrightarrow> scan_up p lvls k \<le> length lvls)"
proof (induction p lvls k rule: scan_up.induct)
  case (1 p lvls k)
  show ?case
  proof (cases "k < length lvls \<and> p (lvls ! k)")
    case True
    with 1 show ?thesis by (subst (1 2) scan_up.simps) auto
  next
    case False
    then show ?thesis by (subst (1 2) scan_up.simps) auto
  qed
qed





lemma scan_down_le: "scan_down q lvls k \<le> k"
proof (induction q lvls k rule: scan_down.induct)
  case (1 q lvls k)
  show ?case
  proof (cases "k \<noteq> 0 \<and> q (lvls ! k)")
    case True
    then have "scan_down q lvls k = scan_down q lvls (k - 1)" by (subst scan_down.simps) simp
    with 1 [OF True] show ?thesis by simp
  next
    case False
    then have "scan_down q lvls k = k" by (subst scan_down.simps) auto
    then show ?thesis by simp
  qed
qed

lemma scan_up_takeWhile: "scan_up p lvls 0 = length (takeWhile p lvls)"
proof -
  have "k \<le> length lvls \<Longrightarrow> scan_up p lvls k = k + length (takeWhile p (drop k lvls))" for k
  proof (induction p lvls k rule: scan_up.induct)
    case (1 p lvls k)
    show ?case
    proof (cases "k < length lvls \<and> p (lvls ! k)")
      case True
      then have eq: "scan_up p lvls k = scan_up p lvls (Suc k)" by (subst scan_up.simps) simp
      from True have d: "drop k lvls = lvls ! k # drop (Suc k) lvls"
        by (simp add: Cons_nth_drop_Suc)
      from "1.IH" [OF True] True show ?thesis by (simp add: eq d)
    next
      case False
      then have eq: "scan_up p lvls k = k" by (subst scan_up.simps) auto
      show ?thesis
      proof (cases "k < length lvls")
        case True
        then have d: "drop k lvls = lvls ! k # drop (Suc k) lvls"
          by (simp add: Cons_nth_drop_Suc)
        with False True show ?thesis by (simp add: eq)
      next
        case False
        then show ?thesis by (simp add: eq)
      qed
    qed
  qed
  from this [of 0] show ?thesis by simp
qed


section \<open>The sample configuration, evaluated\<close>

lemmas sample_simps =
  run_init_def cycle_def select_level_def sense_def initial_temps_def read_temps_def deref_def
  decay_def bias_decay_def sample_config_def scenario_config_def sample_state_def list_sensor_def
  record_temp_def new_TemperatureState_def initial_options_def fail_TF_ERR_def
  scan_up.simps scan_down.simps Let_def


section \<open>The initial level\<close>




text \<open>
  Claim C10 at a configuration with one level whose test \<open><=\<close> holds on the first
  reading (upper limit 50, reading 60): the scan stops at \<open>end()\<close>, and the iterator
  dereferenced for the debug line and for \<open>set_speed\<close> is the past-the-end position.
\<close>

theorem run_init_past_the_end:
  "run_init (sample_config [(0, 50)]) (initial_options []) [60] = ([Fan_init], Inl Deref_past_the_end)"
  by (simp add: sample_simps)


section \<open>One cycle of the loop\<close>

text \<open>
  Claim C3: in a cycle after whose sensor calls the write cursor is not at the end of
  \<open>temps\<close>, the loop raises \<open>SystemError(MSG_SENSOR_LOST)\<close> and issues no fan
  command.
\<close>

theorem sensor_lost_is_fatal:
  "temp_it (sense cfg hw s) \<noteq> length (temps (sense cfg hw s)) \<Longrightarrow>
   cycle cfg opts hw s = ([], Inl (SystemError MSG_SENSOR_LOST))"
  by (simp add: cycle_def fail_TF_ERR_def Let_def)

text \<open>The theorem for claim C3 on a sensor that writes no reading into the one slot.\<close>

theorem sensor_lost_is_fatal_witness:
  "temp_it (sense (sample_config [(10, 50)]) [] (sample_state 20 2 0)) = 0 \<and>
   length (temps (sense (sample_config [(10, 50)]) [] (sample_state 20 2 0))) = 1 \<and>
   cycle (sample_config [(10, 50)]) (initial_options []) [] (sample_state 20 2 0)
     = ([], Inl (SystemError MSG_SENSOR_LOST))"
proof -
  have h: "temp_it (sense (sample_config [(10, 50)]) [] (sample_state 20 2 0)) = 0"
          "length (temps (sense (sample_config [(10, 50)]) [] (sample_state 20 2 0))) = 1"
    by (simp_all add: sample_simps)
  then have "temp_it (sense (sample_config [(10, 50)]) [] (sample_state 20 2 0))
             \<noteq> length (temps (sense (sample_config [(10, 50)]) [] (sample_state 20 2 0)))"
    by simp
  from sensor_lost_is_fatal [OF this] h show ?thesis by simp
qed

text \<open>
  Claim C4: in a cycle in which neither the test \<open><=\<close> nor the test \<open>>\<close> of the
  current level holds on the new readings, no fan command other than
  \<open>ping_watchdog_and_depulse\<close> of the current level is issued, and when the sensors
  have filled every slot exactly that one command is issued and the level and the hold
  timer stay as they were.
\<close>

theorem no_threshold_crossed_pings:
  assumes "cur_lvl s < length (levels cfg)"
    and "\<not> level_le cfg (levels cfg ! cur_lvl s) (sense cfg hw s)"
    and "\<not> level_gt cfg (levels cfg ! cur_lvl s) (sense cfg hw s)"
  shows "(\<forall>c \<in> set (fst (cycle cfg opts hw s)). c = Ping_watchdog_and_depulse (levels cfg ! cur_lvl s))
       \<and> (temp_it (sense cfg hw s) = length (temps (sense cfg hw s)) \<longrightarrow>
            fst (cycle cfg opts hw s) = [Ping_watchdog_and_depulse (levels cfg ! cur_lvl s)]
            \<and> (\<exists>s'. snd (cycle cfg opts hw s) = Inr s' \<and> cur_lvl s' = cur_lvl s
                     \<and> tmp_sleeptime s' = tmp_sleeptime s))"
  using assms
  by (simp add: cycle_def select_level_def deref_def decay_def fail_TF_ERR_def Let_def)

text \<open>The theorem for claim C4 on a level with the limits 10 and 50 and the reading 30.\<close>

theorem no_threshold_crossed_pings_witness:
  "cur_lvl (sample_state 20 2 0) < length (levels (sample_config [(10, 50)]))
   \<and> \<not> level_le (sample_config [(10, 50)]) (levels (sample_config [(10, 50)]) ! cur_lvl (sample_state 20 2 0))
         (sense (sample_config [(10, 50)]) [30] (sample_state 20 2 0))
   \<and> \<not> level_gt (sample_config [(10, 50)]) (levels (sample_config [(10, 50)]) ! cur_lvl (sample_state 20 2 0))
         (sense (sample_config [(10, 50)]) [30] (sample_state 20 2 0))
   \<and> temp_it (sense (sample_config [(10, 50)]) [30] (sample_state 20 2 0))
       = length (temps (sense (sample_config [(10, 50)]) [30] (sample_state 20 2 0)))
   \<and> fst (cycle (sample_config [(10, 50)]) (initial_options []) [30] (sample_state 20 2 0))
       = [Ping_watchdog_and_depulse (10, 50)]"
proof -
  have h1: "cur_lvl (sample_state 20 2 0) < length (levels (sample_config [(10, 50)]))"
    by (simp add: sample_simps)
  have h2: "\<not> level_le (sample_config [(10, 50)]) (levels (sample_config [(10, 50)]) ! cur_lvl (sample_state 20 2 0))
         (sense (sample_config [(10, 50)]) [30] (sample_state 20 2 0))"
    by (simp add: sample_simps)
  have h3: "\<not> level_gt (sample_config [(10, 50)]) (levels (sample_config [(10, 50)]) ! cur_lvl (sample_state 20 2 0))
         (sense (sample_config [(10, 50)]) [30] (sample_state 20 2 0))"
    by (simp add: sample_simps)
  have h4: "temp_it (sense (sample_config [(10, 50)]) [30] (sample_state 20 2 0))
       = length (temps (sense (sample_config [(10, 50)]) [30] (sample_state 20 2 0)))"
    by (simp add: sample_simps)
  have l: "levels (sample_config [(10, 50)]) ! cur_lvl (sample_state 20 2 0) = (10, 50)"
    by (simp add: sample_simps)
  from no_threshold_crossed_pings [OF h1 h2 h3, of "initial_options []"] h4
  have "fst (cycle (sample_config [(10, 50)]) (initial_options []) [30] (sample_state 20 2 0))
       = [Ping_watchdog_and_depulse (10, 50)]"
    by (simp only: l)
  with h1 h2 h3 h4 show ?thesis by blast
qed

text \<open>
  Claim C5, as stated, at the lowest level: with one level of lower limit 10, the
  reading 5 and a hold timer of 2, the cycle takes the backward branch, the selection
  stays at index 0 (no level is left), \<open>set_speed\<close> is issued and the hold timer is
  reset to the base interval 5.
\<close>

theorem tmp_sleeptime_counterexample:
  "tmp_sleeptime (sample_state 20 2 0) = 2 \<and> cur_lvl (sample_state 20 2 0) = 0 \<and>
   sleeptime (initial_options []) = 5 \<and>
   fst (cycle (sample_config [(10, 50)]) (initial_options []) [5] (sample_state 20 2 0))
     = [Set_speed (10, 50)] \<and>
   map_sum id tmp_sleeptime
     (snd (cycle (sample_config [(10, 50)]) (initial_options []) [5] (sample_state 20 2 0))) = Inr 5 \<and>
   map_sum id cur_lvl
     (snd (cycle (sample_config [(10, 50)]) (initial_options []) [5] (sample_state 20 2 0))) = Inr 0"
  by (simp add: sample_simps)

text \<open>
  Claim C5, amended: after a cycle that completes, \<open>tmp_sleeptime\<close> is the base
  interval \<open>sleeptime\<close> if the cycle took the backward branch (the test \<open><=\<close> of the
  current level fails and its test \<open>>\<close> holds), whether or not the selection moved,
  and is what it was before the cycle otherwise; in particular every cycle that lowers
  the level resets it.
\<close>

theorem tmp_sleeptime_reset_iff_backward_branch:
  assumes "cycle cfg opts hw s = (cmds, Inr s')"
  shows "tmp_sleeptime s' =
           (if \<not> level_le cfg (levels cfg ! cur_lvl s) (sense cfg hw s)
               \<and> level_gt cfg (levels cfg ! cur_lvl s) (sense cfg hw s)
            then sleeptime opts else tmp_sleeptime s)
         \<and> (cur_lvl s' < cur_lvl s \<longrightarrow> tmp_sleeptime s' = sleeptime opts)"
proof -
  have up: "\<not> scan_up (\<lambda>l. level_le cfg l (sense cfg hw s)) (levels cfg) (cur_lvl s) < cur_lvl s"
    using scan_up_bounds [of "cur_lvl s" "\<lambda>l. level_le cfg l (sense cfg hw s)" "levels cfg"] by simp
  show ?thesis
    using assms up
    by (auto simp: cycle_def select_level_def deref_def decay_def fail_TF_ERR_def Let_def
             split: if_splits sum.splits prod.splits)
qed

text \<open>
  The theorem for claim C5 on a cycle that goes back from the second level to the first.
\<close>

theorem tmp_sleeptime_reset_iff_backward_branch_witness:
  "cycle (sample_config [(0, 50), (45, 70)]) (initial_options []) [30] (sample_state 60 2 1)
     = ([Set_speed (0, 50)],
        Inr \<lparr>temp_state = \<lparr>temps = [30], temp_it = 1, tmax = 30, bias = 0\<rparr>,
             last_temp_state = \<lparr>temps = [60], temp_it = 0, tmax = 60, bias = 0\<rparr>,
             tmp_sleeptime = 5, cur_lvl = 0\<rparr>)
   \<and> tmp_sleeptime (sample_state 60 2 1) = 2
   \<and> level_gt (sample_config [(0, 50), (45, 70)])
        (levels (sample_config [(0, 50), (45, 70)]) ! cur_lvl (sample_state 60 2 1))
        (sense (sample_config [(0, 50), (45, 70)]) [30] (sample_state 60 2 1))
   \<and> sleeptime (initial_options []) = 5"
proof -
  have h: "cycle (sample_config [(0, 50), (45, 70)]) (initial_options []) [30] (sample_state 60 2 1)
     = ([Set_speed (0, 50)],
        Inr \<lparr>temp_state = \<lparr>temps = [30], temp_it = 1, tmax = 30, bias = 0\<rparr>,
             last_temp_state = \<lparr>temps = [60], temp_it = 0, tmax = 60, bias = 0\<rparr>,
             tmp_sleeptime = 5, cur_lvl = 0\<rparr>)"
    by (simp add: sample_simps)
  have g: "level_gt (sample_config [(0, 50), (45, 70)])
        (levels (sample_config [(0, 50), (45, 70)]) ! cur_lvl (sample_state 60 2 1))
        (sense (sample_config [(0, 50), (45, 70)]) [30] (sample_state 60 2 1))"
    by (simp add: sample_simps)
  have "cur_lvl \<lparr>temp_state = \<lparr>temps = [30], temp_it = 1, tmax = 30, bias = 0\<rparr>,
             last_temp_state = \<lparr>temps = [60], temp_it = 0, tmax = 60, bias = 0\<rparr>,
             tmp_sleeptime = 5, cur_lvl = 0\<rparr> < cur_lvl (sample_state 60 2 1)"
    by (simp add: sample_state_def)
  with tmp_sleeptime_reset_iff_backward_branch [OF h]
  have "sleeptime (initial_options []) = 5" by simp
  moreover have "tmp_sleeptime (sample_state 60 2 1) = 2" by (simp add: sample_state_def)
  ultimately show ?thesis using h g by blast
qed

text \<open>
  The forward branch when the scan stops before the end of the sequence: one
  \<open>set_speed\<close>, for the level the scan stopped at.
\<close>

lemma forward_scan_sets_speed_once:
  assumes "cur_lvl s < length (levels cfg)"
    and "temp_it (sense cfg hw s) = length (temps (sense cfg hw s))"
    and "level_le cfg (levels cfg ! cur_lvl s) (sense cfg hw s)"
    and "scan_up (\<lambda>l. level_le cfg l (sense cfg hw s)) (levels cfg) (cur_lvl s) < length (levels cfg)"
  shows "fst (cycle cfg opts hw s)
           = [Set_speed (levels cfg ! scan_up (\<lambda>l. level_le cfg l (sense cfg hw s)) (levels cfg) (cur_lvl s))]
         \<and> (\<exists>s'. snd (cycle cfg opts hw s) = Inr s'
                \<and> cur_lvl s' = scan_up (\<lambda>l. level_le cfg l (sense cfg hw s)) (levels cfg) (cur_lvl s))"
  using assms
  by (simp add: cycle_def select_level_def deref_def decay_def fail_TF_ERR_def Let_def)

text \<open>
  Claim C6 at two levels whose tests \<open><=\<close> both hold on the new reading (upper limits
  50 and 70, reading 75), the first one selected: the forward scan stops at \<open>end()\<close>
  and the cycle ends in the dereference of the past-the-end iterator, with no
  \<open>set_speed\<close> for a level.
\<close>

theorem cycle_forward_past_the_end:
  "cycle (sample_config [(0, 50), (45, 70)]) (initial_options []) [75] (sample_state 40 5 0)
     = ([], Inl Deref_past_the_end)"
  by (simp add: sample_simps)


section \<open>Reloading the configuration\<close>

text \<open>
  Claim C7: when \<open>run\<close> returns on \<open>SIGHUP\<close> and \<open>read_config\<close> fails with an
  exception the reload handler catches, the configuration stays the active one, the last
  message logged is \<open>MSG_CONF_RELOAD_ERR\<close> at error level, \<open>interrupted\<close> is 0,
  and the loop of \<open>main\<close> goes on: its next step calls \<open>run\<close> with the old
  configuration.
\<close>

theorem failed_reload_keeps_config:
  assumes "rc = Inl (ExpectedError e) \<or> rc = Inl (StdException e)"
  shows "\<exists>st'. reload rc (st\<lparr>runs := runs st @ [config st], interrupted := SIGHUP\<rparr>) = Inr st'
           \<and> config st' = config st \<and> interrupted st' = 0
           \<and> last (logged st') = (TF_ERR, MSG_CONF_RELOAD_ERR)
           \<and> runs st' = runs st @ [config st]
           \<and> main_loop st ((SIGHUP, rc) # rest) = main_loop st' rest
           \<and> main_loop st' [] = (st'\<lparr>runs := runs st @ [config st, config st]\<rparr>, Running)"
  using assms by (auto simp: reload_def log_def Let_def)

text \<open>The theorem for claim C7 on one failed reload, after which \<open>run\<close> is active.\<close>

theorem failed_reload_keeps_config_witness:
  "main_loop \<lparr>config = (1::nat), interrupted = 0, logged = [], runs = []\<rparr>
      [(SIGHUP, Inl (ExpectedError ''bad''))]
     = (\<lparr>config = 1, interrupted = 0,
         logged = [(TF_INF, MSG_RELOAD_CONF), (TF_ERR, MSG_CONF_RELOAD_ERR)],
         runs = [1, 1]\<rparr>, Running)"
proof -
  have "Inl (ExpectedError ''bad'') = Inl (ExpectedError ''bad'')
        \<or> (Inl (ExpectedError ''bad'') :: read_failure + nat) = Inl (StdException ''bad'')"
    by simp
  from failed_reload_keeps_config [OF this,
      of "\<lparr>config = (1::nat), interrupted = 0, logged = [], runs = []\<rparr>" "[]"]
  show ?thesis by (auto simp: reload_def log_def Let_def SIGHUP_def)
qed


section \<open>The range of \<open>bias_level\<close>\<close>

text \<open>
  Claim C9 with no option given: \<open>set_options\<close> leaves the globals as initialised,
  and the initial \<open>bias_level\<close> is 5, outside the range from -1 to 3.
\<close>

theorem bias_level_default_out_of_range:
  "set_options wrn [] (initial_options d) = Inr (0, initial_options d)
   \<and> bias_level (initial_options d) = 5
   \<and> \<not> (- 1 \<le> bias_level (initial_options d) \<and> bias_level (initial_options d) \<le> 3)"
  by (simp add: initial_options_def)

end
